theory Spec2Isabelle
  imports Main
begin

section \<open>Orange.modelling.base: the Fitter dispatcher\<close>

text \<open>
  A shallow embedding of \<^verbatim>\<open>Orange/modelling/base.py\<close>. Python objects are records,
  dictionaries are maps, every \<^verbatim>\<open>raise\<close> is an \<open>Inl\<close> result, and the mutation
  of \<^verbatim>\<open>self\<close> is explicit state passing: every method returns the dispatcher as
  it is when the method returns or raises.
\<close>

subsection \<open>Python values and exceptions\<close>

text \<open>
  The values that configuration parameters, attributes, models and raised
  exception objects range over. \<open>PyObj\<close> is an opaque object known by a label.
\<close>

datatype pyval =
    PyNone
  | PyBool bool
  | PyInt int
  | PyStr string
  | PyList "pyval list"
  | PyObj string

text \<open>
  The exceptions leaving the dispatcher. \<open>AssertionError\<close> and \<open>AttributeError\<close>
  are raised by the module or by the interpreter on its behalf; \<open>TypeError\<close> is
  what subscripting or calling \<^verbatim>\<open>None\<close> raises, \<open>KeyError\<close> and \<open>IndexError\<close>
  what subscripting a dict or a tuple with a missing key or index raises; \<open>Raised\<close> is
  an exception object raised inside a learner's own code, which the dispatcher lets
  through unchanged.
\<close>

datatype error =
    AssertionError string
  | AttributeError string
  | TypeError string
  | KeyError
  | IndexError
  | Raised pyval

text \<open>Line 59: the message of the error for a problem type without a learner.\<close>

definition no_learner_msg :: string where
  "no_learner_msg = ''There is no learner defined that handles that type of data''"

text \<open>Lines 16-17: the message of the metaclass's assertion.\<close>

definition invalid_fits_msg :: string where
  "invalid_fits_msg =
     ''The `__fits__` property must be an instance of `Orange.base.LearnerTypes`.''"

text \<open>
  What the interpreter raises for \<^verbatim>\<open>getattr(obj, item)\<close> when the object has no such
  attribute (the text of the message is abridged to the attribute's name).
\<close>

definition no_attribute_msg :: "string \<Rightarrow> string" where
  "no_attribute_msg item = ''object has no attribute '' @ item"

text \<open>The interpreter's messages for \<^verbatim>\<open>None[i]\<close> and \<^verbatim>\<open>None(...)\<close>.\<close>

definition not_subscriptable_msg :: string where
  "not_subscriptable_msg = ''NoneType object is not subscriptable''"

definition not_callable_msg :: string where
  "not_callable_msg = ''NoneType object is not callable''"

subsection \<open>The collaborators: datasets and learners\<close>

text \<open>
  Of a dataset the module reads \<^verbatim>\<open>data.domain.has_discrete_class\<close> only.
\<close>

record table =
  has_discrete_class :: bool
  content :: pyval

text \<open>
  A learner class, as far as the module uses one: the variable names of its
  constructor's code object (\<^verbatim>\<open>__init__.__code__.co_varnames\<close>: the parameters,
  \<^verbatim>\<open>self\<close> first, followed by the local variables of the body), the number of
  those names that are parameters (\<^verbatim>\<open>co_argcount\<close>), the constructor itself
  (from the keyword arguments to the attributes of the new instance, or the
  exception it raises) and the class's \<^verbatim>\<open>__call__\<close> (from the instance's
  attributes and a dataset to a model, or the exception it raises).
\<close>

record learner_class =
  co_varnames :: "string list"
  co_argcount :: nat
  init :: "(string \<rightharpoonup> pyval) \<Rightarrow> pyval + (string \<rightharpoonup> pyval)"
  fit :: "(string \<rightharpoonup> pyval) \<Rightarrow> table \<Rightarrow> pyval + pyval"



text \<open>
  A learner instance: its identity (the number of learner objects allocated
  before it), its class and its attributes.
\<close>

record learner =
  oid :: nat
  cls :: learner_class
  attrs :: "string \<rightharpoonup> pyval"

text \<open>
  \<^verbatim>\<open>cls(**kw)\<close>: a new object is allocated, then the constructor runs on it. The
  natural number threaded through is the count of learner objects allocated so far.
\<close>

definition construct ::
  "learner_class \<Rightarrow> (string \<rightharpoonup> pyval) \<Rightarrow> nat \<Rightarrow> (error + learner) \<times> nat" where
  "construct c kw n =
     (case init c kw of
        Inl e \<Rightarrow> (Inl (Raised e), Suc n)
      | Inr a \<Rightarrow> (Inr \<lparr>oid = n, cls = c, attrs = a\<rparr>, Suc n))"

text \<open>\<^verbatim>\<open>learner(data)\<close>.\<close>

definition learner_call :: "learner \<Rightarrow> table \<Rightarrow> error + pyval" where
  "learner_call l data =
     (case fit (cls l) (attrs l) data of
        Inl e \<Rightarrow> Inl (Raised e)
      | Inr m \<Rightarrow> Inr m)"

text \<open>\<^verbatim>\<open>getattr(learner, item)\<close>.\<close>

definition py_getattr :: "learner \<Rightarrow> string \<Rightarrow> error + pyval" where
  "py_getattr l item =
     (case attrs l item of
        None \<Rightarrow> Inl (AttributeError (no_attribute_msg item))
      | Some v \<Rightarrow> Inr v)"

subsection \<open>LearnerTypes and the problem types\<close>

text \<open>
  Line 5: the named tuple of two learner classes, each of which may be \<^verbatim>\<open>None\<close>.
\<close>

record LearnerTypes =
  classification :: "learner_class option"
  regression :: "learner_class option"

text \<open>Line 39: \<^verbatim>\<open>CLASSIFICATION, REGRESSION = range(2)\<close>.\<close>

definition CLASSIFICATION :: int where
  "CLASSIFICATION = 0"

definition REGRESSION :: int where
  "REGRESSION = 1"

text \<open>
  \<^verbatim>\<open>self.__fits__[problem_type]\<close>: subscripting the two-element tuple, with Python's
  negative indices, raising \<^verbatim>\<open>IndexError\<close> out of range.
\<close>

definition fits_getitem :: "LearnerTypes \<Rightarrow> int \<Rightarrow> error + learner_class option" where
  "fits_getitem lt i =
     (let j = (if i < 0 then 2 + i else i)
      in if j = 0 then Inr (classification lt)
         else if j = 1 then Inr (regression lt)
         else Inl IndexError)"

subsection \<open>The dispatcher\<close>

text \<open>
  A \<^verbatim>\<open>Fitter\<close> instance. \<open>fits\<close> is the class attribute \<^verbatim>\<open>__fits__\<close> of the
  instance's class (\<open>None\<close> for Python's \<^verbatim>\<open>None\<close>, as in \<^verbatim>\<open>Fitter\<close> itself);
  \<open>use_default_preprocessors\<close> is the attribute the base class \<^verbatim>\<open>Learner\<close>
  provides; \<open>problem_type\<close> is \<open>None\<close> for Python's \<^verbatim>\<open>None\<close>; \<open>learners\<close> is the
  dictionary \<^verbatim>\<open>self.__learners\<close>, whose values may be \<^verbatim>\<open>None\<close>.
\<close>

record Fitter =
  fits :: "LearnerTypes option"
  use_default_preprocessors :: bool
  kwargs :: "string \<rightharpoonup> pyval"
  problem_type :: "int option"
  learners :: "int \<rightharpoonup> learner option"

text \<open>
  Lines 41-47, \<^verbatim>\<open>__init__\<close>. The call \<^verbatim>\<open>super().__init__(preprocessors=preprocessors)\<close>
  runs code of \<^verbatim>\<open>Orange.base\<close>; what it leaves in \<^verbatim>\<open>use_default_preprocessors\<close> is
  the parameter \<open>udp\<close>. The class attribute \<^verbatim>\<open>__fits__\<close> is the parameter \<open>f\<close>.
\<close>

definition Fitter_init ::
  "LearnerTypes option \<Rightarrow> bool \<Rightarrow> pyval \<Rightarrow> (string \<rightharpoonup> pyval) \<Rightarrow> Fitter" where
  "Fitter_init f udp preprocessors kw =
     \<lparr>fits = f,
      use_default_preprocessors = udp,
      kwargs = kw(''preprocessors'' \<mapsto> preprocessors),
      problem_type = None,
      learners = [CLASSIFICATION \<mapsto> None, REGRESSION \<mapsto> None]\<rparr>"

text \<open>Lines 82-86, \<^verbatim>\<open>_get_learner_kwargs\<close>.\<close>

definition get_learner_kwargs :: "learner_class \<Rightarrow> string set" where
  "get_learner_kwargs c = set (drop 1 (co_varnames c))"

text \<open>
  Lines 72-80, \<^verbatim>\<open>__handled_problem_types\<close>. Reading \<^verbatim>\<open>.classification\<close> of
  \<^verbatim>\<open>None\<close> raises the interpreter's \<^verbatim>\<open>AttributeError\<close>.
\<close>

definition handled_problem_types :: "Fitter \<Rightarrow> error + int set" where
  "handled_problem_types self =
     (case fits self of
        None \<Rightarrow> Inl (AttributeError (no_attribute_msg ''classification''))
      | Some lt \<Rightarrow>
          Inr ((if classification lt \<noteq> None then {CLASSIFICATION} else {}) \<union>
               (if regression lt \<noteq> None then {REGRESSION} else {})))"

text \<open>
  Lines 68-70, \<^verbatim>\<open>__get_kwargs\<close>. Calling \<^verbatim>\<open>_get_learner_kwargs\<close> on \<^verbatim>\<open>None\<close>
  raises the interpreter's \<^verbatim>\<open>AttributeError\<close> (\<^verbatim>\<open>None.__init__\<close> has no
  \<^verbatim>\<open>__code__\<close>).
\<close>

definition get_kwargs ::
  "Fitter \<Rightarrow> (string \<rightharpoonup> pyval) \<Rightarrow> int \<Rightarrow> error + (string \<rightharpoonup> pyval)" where
  "get_kwargs self kw pt =
     (case fits self of
        None \<Rightarrow> Inl (TypeError not_subscriptable_msg)
      | Some lt \<Rightarrow>
          (case fits_getitem lt pt of
             Inl e \<Rightarrow> Inl e
           | Inr None \<Rightarrow> Inl (AttributeError (no_attribute_msg ''__code__''))
           | Inr (Some c) \<Rightarrow> Inr (kw |` (get_learner_kwargs c \<inter> dom kw))))"

text \<open>
  Lines 62-64, the construction inside \<^verbatim>\<open>get_learner\<close>: the callee
  \<^verbatim>\<open>self.__fits__[problem_type]\<close> is evaluated first, then its keyword arguments,
  then the call is made, and the new learner's \<^verbatim>\<open>use_default_preprocessors\<close> is
  assigned.
\<close>

definition new_learner :: "Fitter \<Rightarrow> int \<Rightarrow> nat \<Rightarrow> (error + learner) \<times> nat" where
  "new_learner self pt n =
     (case fits self of
        None \<Rightarrow> (Inl (TypeError not_subscriptable_msg), n)
      | Some lt \<Rightarrow>
          (case fits_getitem lt pt of
             Inl e \<Rightarrow> (Inl e, n)
           | Inr callee \<Rightarrow>
               (case get_kwargs self (kwargs self) pt of
                  Inl e \<Rightarrow> (Inl e, n)
                | Inr kw \<Rightarrow>
                    (case callee of
                       None \<Rightarrow> (Inl (TypeError not_callable_msg), n)
                     | Some c \<Rightarrow>
                         (case construct c kw n of
                            (Inl e, n') \<Rightarrow> (Inl e, n')
                          | (Inr learner, n') \<Rightarrow>
                              (Inr (learner
                                 \<lparr>attrs := (attrs learner)
                                    (''use_default_preprocessors'' \<mapsto>
                                       PyBool (use_default_preprocessors self))\<rparr>),
                               n'))))))"

text \<open>
  Lines 55-66, \<^verbatim>\<open>get_learner\<close>. The result is the learner returned or the
  exception raised, the dispatcher afterwards, and the count of learner objects
  allocated afterwards. \<^verbatim>\<open>None\<close> is a member of no set of problem types.
\<close>

definition get_learner ::
  "Fitter \<Rightarrow> int option \<Rightarrow> nat \<Rightarrow> (error + learner) \<times> Fitter \<times> nat" where
  "get_learner self problem_type' n =
     (case handled_problem_types self of
        Inl e \<Rightarrow> (Inl e, self, n)
      | Inr types \<Rightarrow>
          (case problem_type' of
             None \<Rightarrow> (Inl (AttributeError no_learner_msg), self, n)
           | Some pt \<Rightarrow>
               if pt \<notin> types then (Inl (AttributeError no_learner_msg), self, n)
               else
                 (case learners self pt of
                    None \<Rightarrow> (Inl KeyError, self, n)
                  | Some (Some l) \<Rightarrow> (Inr l, self, n)
                  | Some None \<Rightarrow>
                      (case new_learner self pt n of
                         (Inl e, n') \<Rightarrow> (Inl e, self, n')
                       | (Inr learner, n') \<Rightarrow>
                           (Inr learner,
                            self\<lparr>learners := (learners self)(pt \<mapsto> Some learner)\<rparr>,
                            n')))))"

text \<open>
  Lines 49-53, \<^verbatim>\<open>__call__\<close>: the assignment to \<^verbatim>\<open>self.problem_type\<close> comes first
  and stays when a later step raises.
\<close>

definition call :: "Fitter \<Rightarrow> table \<Rightarrow> nat \<Rightarrow> (error + pyval) \<times> Fitter \<times> nat" where
  "call self data n =
     (let self1 = self
            \<lparr>problem_type :=
               Some (if has_discrete_class data then CLASSIFICATION else REGRESSION)\<rparr>
      in case get_learner self1 (problem_type self1) n of
           (Inl e, self2, n') \<Rightarrow> (Inl e, self2, n')
         | (Inr l, self2, n') \<Rightarrow> (learner_call l data, self2, n'))"

text \<open>
  Lines 88-89, \<^verbatim>\<open>__getattr__\<close>, which the interpreter calls for an attribute that
  the dispatcher itself does not have.
\<close>

definition getattr :: "Fitter \<Rightarrow> string \<Rightarrow> nat \<Rightarrow> (error + pyval) \<times> Fitter \<times> nat" where
  "getattr self item n =
     (case get_learner self (problem_type self) n of
        (Inl e, self', n') \<Rightarrow> (Inl e, self', n')
      | (Inr l, self', n') \<Rightarrow> (py_getattr l item, self', n'))"

subsection \<open>The metaclass\<close>

text \<open>
  The values in the namespace of a class statement, as far as the metaclass looks
  at them: \<^verbatim>\<open>None\<close>, a bool, an int, a string, an instance of \<^verbatim>\<open>LearnerTypes\<close>,
  or any other object, known by a label and by the truth value that Python gives it
  (what its \<^verbatim>\<open>__bool__\<close> or, failing that, its \<^verbatim>\<open>__len__\<close> says; true when it has
  neither).
\<close>

datatype nsval =
    NsNone
  | NsBool bool
  | NsInt int
  | NsStr string
  | NsObject string bool
  | Fits LearnerTypes

text \<open>Python's truth value of an object; a named tuple of two fields is not empty.\<close>

fun truthy :: "nsval \<Rightarrow> bool" where
  "truthy NsNone = False"
| "truthy (NsBool b) = b"
| "truthy (NsInt i) = (i \<noteq> 0)"
| "truthy (NsStr s) = (s \<noteq> [])"
| "truthy (NsObject x b) = b"
| "truthy (Fits lt) = True"

text \<open>\<^verbatim>\<open>isinstance(v, LearnerTypes)\<close>.\<close>

fun is_LearnerTypes :: "nsval \<Rightarrow> bool" where
  "is_LearnerTypes (Fits lt) = True"
| "is_LearnerTypes NsNone = False"
| "is_LearnerTypes (NsBool b) = False"
| "is_LearnerTypes (NsInt i) = False"
| "is_LearnerTypes (NsStr s) = False"
| "is_LearnerTypes (NsObject x b) = False"

text \<open>\<^verbatim>\<open>d.get(key, default)\<close>.\<close>

definition dict_get :: "(string \<rightharpoonup> nsval) \<Rightarrow> string \<Rightarrow> nsval \<Rightarrow> nsval" where
  "dict_get d key dflt = (case d key of None \<Rightarrow> dflt | Some v \<Rightarrow> v)"

text \<open>A class object, as \<^verbatim>\<open>type.__new__\<close> builds it from its three arguments.\<close>

record class_object =
  class_name :: string
  class_bases :: "string list"
  class_dict :: "string \<rightharpoonup> nsval"

text \<open>Lines 11-18, \<^verbatim>\<open>FitterMeta.__new__\<close>.\<close>

definition FitterMeta_new ::
  "string \<Rightarrow> string list \<Rightarrow> (string \<rightharpoonup> nsval) \<Rightarrow> error + class_object" where
  "FitterMeta_new name bases kwargs' =
     (if truthy (dict_get kwargs' ''name'' (NsBool False)) \<and>
         \<not> is_LearnerTypes (dict_get kwargs' ''__fits__'' NsNone)
      then Inl (AssertionError invalid_fits_msg)
      else Inr \<lparr>class_name = name, class_bases = bases, class_dict = kwargs'\<rparr>)"

subsection \<open>Driving a dispatcher\<close>

text \<open>
  A client uses a dispatcher through the three entry points of the class. A
  client may catch an exception and go on, so a sequence of requests continues
  from the state that each request leaves, whether it returned or raised.
\<close>

datatype request =
    Call table
  | GetLearner "int option"
  | GetAttr string

fun step :: "Fitter \<times> nat \<Rightarrow> request \<Rightarrow> Fitter \<times> nat" where
  "step (self, n) (Call data) = snd (call self data n)"
| "step (self, n) (GetLearner pt) = snd (get_learner self pt n)"
| "step (self, n) (GetAttr item) = snd (getattr self item n)"

definition run :: "Fitter \<times> nat \<Rightarrow> request list \<Rightarrow> Fitter \<times> nat" where
  "run s rs = foldl step s rs"

text \<open>The problem type that \<^verbatim>\<open>__call__\<close> determines for a dataset (lines 51-52).\<close>

definition problem_type_of :: "table \<Rightarrow> int" where
  "problem_type_of data = (if has_discrete_class data then CLASSIFICATION else REGRESSION)"

text \<open>A slot of the cache is populated when it holds a learner, not \<^verbatim>\<open>None\<close>.\<close>

definition populated :: "Fitter \<Rightarrow> int \<Rightarrow> bool" where
  "populated self pt = (case learners self pt of Some (Some l) \<Rightarrow> True | _ \<Rightarrow> False)"

text \<open>
  What holds of every dispatcher of a class with the binding \<open>lt\<close> from its
  construction on: both keys of the cache exist, no other key does, and a cached
  learner is an instance of the class bound to its slot and carries the
  dispatcher's \<^verbatim>\<open>use_default_preprocessors\<close>.
\<close>

definition cache_ok :: "LearnerTypes \<Rightarrow> Fitter \<Rightarrow> bool" where
  "cache_ok lt self =
     (fits self = Some lt \<and>
      dom (learners self) = {CLASSIFICATION, REGRESSION} \<and>
      (\<forall>pt l. learners self pt = Some (Some l) \<longrightarrow>
         fits_getitem lt pt = Inr (Some (cls l)) \<and>
         attrs l ''use_default_preprocessors'' =
           Some (PyBool (use_default_preprocessors self))))"

subsection \<open>Example learners and dispatchers\<close>

text \<open>
  Concrete learner classes and configurations, on which the theorems below are
  evaluated. \<open>stores_kwargs\<close> is a constructor that keeps every keyword argument
  it receives as an attribute of the instance; \<open>returns_model\<close> is a
  \<^verbatim>\<open>__call__\<close> that returns a model known by its label.
\<close>

definition stores_kwargs :: "(string \<rightharpoonup> pyval) \<Rightarrow> pyval + (string \<rightharpoonup> pyval)" where
  "stores_kwargs kw = Inr kw"

definition returns_model :: "string \<Rightarrow> (string \<rightharpoonup> pyval) \<Rightarrow> table \<Rightarrow> pyval + pyval" where
  "returns_model label a data = Inr (PyObj label)"

definition ACLearner :: learner_class where
  "ACLearner =
     \<lparr>co_varnames = [''self'', ''a'', ''c''], co_argcount = 3,
      init = stores_kwargs, fit = returns_model ''classifier''\<rparr>"

definition ac_types :: LearnerTypes where
  "ac_types = \<lparr>classification = Some ACLearner, regression = None\<rparr>"

definition abc_config :: "string \<rightharpoonup> pyval" where
  "abc_config = [''a'' \<mapsto> PyInt 1, ''b'' \<mapsto> PyInt 2, ''c'' \<mapsto> PyInt 3]"

definition ac_config :: "string \<rightharpoonup> pyval" where
  "ac_config = [''a'' \<mapsto> PyInt 1, ''c'' \<mapsto> PyInt 3]"

definition abc_fitter :: Fitter where
  "abc_fitter = Fitter_init (Some ac_types) False PyNone abc_config"

definition RegLearner :: learner_class where
  "RegLearner =
     \<lparr>co_varnames = [''self'', ''preprocessors'', ''b''], co_argcount = 3,
      init = stores_kwargs, fit = returns_model ''regressor''\<rparr>"

definition both_types :: LearnerTypes where
  "both_types = \<lparr>classification = Some ACLearner, regression = Some RegLearner\<rparr>"

definition both_fitter :: Fitter where
  "both_fitter = Fitter_init (Some both_types) False PyNone abc_config"

definition discrete_data :: table where
  "discrete_data = \<lparr>has_discrete_class = True, content = PyObj ''iris''\<rparr>"

definition continuous_data :: table where
  "continuous_data = \<lparr>has_discrete_class = False, content = PyObj ''housing''\<rparr>"


text \<open>The dispatcher \<open>abc_fitter\<close> after one call on the discrete dataset.\<close>

definition classification_used :: "Fitter \<times> nat" where
  "classification_used = run (abc_fitter, 0) [Call discrete_data]"

definition other_discrete_data :: table where
  "other_discrete_data = \<lparr>has_discrete_class = True, content = PyObj ''wine''\<rparr>"

text \<open>The dispatcher \<open>both_fitter\<close> after one call on the discrete dataset.\<close>

definition both_classification_used :: "Fitter \<times> nat" where
  "both_classification_used = run (both_fitter, 0) [Call discrete_data]"

text \<open>
  A learner whose constructor takes the very parameter name that the dispatcher
  assigns after construction, and a configuration that sets it.
\<close>

definition FlagLearner :: learner_class where
  "FlagLearner =
     \<lparr>co_varnames = [''self'', ''use_default_preprocessors''], co_argcount = 2,
      init = stores_kwargs, fit = returns_model ''flagged''\<rparr>"

definition flag_types :: LearnerTypes where
  "flag_types = \<lparr>classification = Some FlagLearner, regression = None\<rparr>"

definition flag_config :: "string \<rightharpoonup> pyval" where
  "flag_config = [''use_default_preprocessors'' \<mapsto> PyBool True]"

definition flag_fitter :: Fitter where
  "flag_fitter = Fitter_init (Some flag_types) False (PyObj ''scaler'') flag_config"

text \<open>The dispatcher \<open>both_fitter\<close> after a call of each kind.\<close>

definition both_kinds_used :: "Fitter \<times> nat" where
  "both_kinds_used = run (both_fitter, 0) [Call discrete_data, Call continuous_data]"

text \<open>
  A constructor that, as a Python function without \<^verbatim>\<open>**kwargs\<close> does, raises
  \<^verbatim>\<open>TypeError\<close> for a keyword argument that is not one of its parameters, and a
  learner class whose constructor \<^verbatim>\<open>def __init__(self, a): tmp = ...\<close> has one
  parameter besides \<^verbatim>\<open>self\<close> and the local variable \<^verbatim>\<open>tmp\<close>.
\<close>

definition strict_init ::
  "string list \<Rightarrow> (string \<rightharpoonup> pyval) \<Rightarrow> pyval + (string \<rightharpoonup> pyval)" where
  "strict_init params kw =
     (if dom kw \<subseteq> set params then Inr kw else Inl (PyObj ''TypeError''))"

definition LocalVarLearner :: learner_class where
  "LocalVarLearner =
     \<lparr>co_varnames = [''self'', ''a'', ''tmp''], co_argcount = 2,
      init = strict_init [''a''], fit = returns_model ''local''\<rparr>"

definition local_types :: LearnerTypes where
  "local_types = \<lparr>classification = Some LocalVarLearner, regression = None\<rparr>"

definition tmp_config :: "string \<rightharpoonup> pyval" where
  "tmp_config = [''a'' \<mapsto> PyInt 1, ''tmp'' \<mapsto> PyInt 2]"

definition local_fitter :: Fitter where
  "local_fitter = Fitter_init (Some local_types) False PyNone tmp_config"

text \<open>Namespaces of class statements, as the metaclass receives them.\<close>

definition nameless_namespace :: "string \<rightharpoonup> nsval" where
  "nameless_namespace = [''__module__'' \<mapsto> NsStr ''Orange.modelling.tree'']"

definition named_namespace :: "string \<rightharpoonup> nsval" where
  "named_namespace =
     [''__module__'' \<mapsto> NsStr ''Orange.modelling.tree'',
      ''name'' \<mapsto> NsStr ''tree'']"

definition bound_namespace :: "string \<rightharpoonup> nsval" where
  "bound_namespace =
     [''__module__'' \<mapsto> NsStr ''Orange.modelling.tree'',
      ''name'' \<mapsto> NsStr ''tree'',
      ''__fits__'' \<mapsto> Fits ac_types]"

definition falsy_name_namespace :: "string \<rightharpoonup> nsval" where
  "falsy_name_namespace =
     [''__module__'' \<mapsto> NsStr ''Orange.modelling.tree'',
      ''name'' \<mapsto> NsObject ''EmptyLabel()'' False]"

section \<open>Properties\<close>

subsection \<open>What \<^verbatim>\<open>get_learner\<close> does, case by case\<close>

lemma handled_Some:
  "fits self = Some lt \<Longrightarrow>
   handled_problem_types self =
     Inr {pt. (pt = CLASSIFICATION \<or> pt = REGRESSION) \<and> (\<exists>c. fits_getitem lt pt = Inr (Some c))}"
  by (auto simp: handled_problem_types_def fits_getitem_def CLASSIFICATION_def REGRESSION_def)

lemma get_learner_None:
  "fits self = Some lt \<Longrightarrow>
   get_learner self None n = (Inl (AttributeError no_learner_msg), self, n)"
  by (simp add: get_learner_def handled_Some)

lemma get_learner_unbound:
  "fits self = Some lt \<Longrightarrow> fits_getitem lt pt = Inr None \<Longrightarrow>
   get_learner self (Some pt) n = (Inl (AttributeError no_learner_msg), self, n)"
  by (simp add: get_learner_def handled_Some)

lemma get_learner_other:
  "fits self = Some lt \<Longrightarrow> pt \<noteq> CLASSIFICATION \<Longrightarrow> pt \<noteq> REGRESSION \<Longrightarrow>
   get_learner self (Some pt) n = (Inl (AttributeError no_learner_msg), self, n)"
  by (simp add: get_learner_def handled_Some)

lemma get_learner_cached:
  "fits self = Some lt \<Longrightarrow> pt = CLASSIFICATION \<or> pt = REGRESSION \<Longrightarrow>
   fits_getitem lt pt = Inr (Some c) \<Longrightarrow> learners self pt = Some (Some l) \<Longrightarrow>
   get_learner self (Some pt) n = (Inr l, self, n)"
  by (auto simp add: get_learner_def handled_Some)

lemma new_learner_bound:
  "fits self = Some lt \<Longrightarrow> fits_getitem lt pt = Inr (Some c) \<Longrightarrow>
   new_learner self pt n =
     (case init c (kwargs self |` (get_learner_kwargs c \<inter> dom (kwargs self))) of
        Inl e \<Rightarrow> (Inl (Raised e), Suc n)
      | Inr a \<Rightarrow>
          (Inr \<lparr>oid = n, cls = c,
                attrs = a(''use_default_preprocessors'' \<mapsto>
                            PyBool (use_default_preprocessors self))\<rparr>,
           Suc n))"
  by (simp add: new_learner_def get_kwargs_def construct_def split: sum.splits)

lemma get_learner_miss:
  "fits self = Some lt \<Longrightarrow> pt = CLASSIFICATION \<or> pt = REGRESSION \<Longrightarrow>
   fits_getitem lt pt = Inr (Some c) \<Longrightarrow> learners self pt = Some None \<Longrightarrow>
   get_learner self (Some pt) n =
     (case new_learner self pt n of
        (Inl e, n') \<Rightarrow> (Inl e, self, n')
      | (Inr l, n') \<Rightarrow> (Inr l, self\<lparr>learners := (learners self)(pt \<mapsto> Some l)\<rparr>, n'))"
  by (auto simp add: get_learner_def handled_Some)

lemma new_learner_Inr:
  "new_learner self pt n = (Inr l, n') \<Longrightarrow>
   \<exists>lt c a. fits self = Some lt \<and> fits_getitem lt pt = Inr (Some c) \<and>
     init c (kwargs self |` (get_learner_kwargs c \<inter> dom (kwargs self))) = Inr a \<and>
     l = \<lparr>oid = n, cls = c,
          attrs = a(''use_default_preprocessors'' \<mapsto> PyBool (use_default_preprocessors self))\<rparr> \<and>
     n' = Suc n"
  by (auto simp: new_learner_def get_kwargs_def construct_def
           split: option.splits sum.splits prod.splits)

lemma new_learner_Inl:
  "new_learner self pt n = (Inl e, n') \<Longrightarrow> n' = n \<or> n' = Suc n"
  by (auto simp: new_learner_def get_kwargs_def construct_def
           split: option.splits sum.splits prod.splits)

lemma get_learner_Inl:
  "get_learner self pto n = (Inl e, self', n') \<Longrightarrow> self' = self \<and> (n' = n \<or> n' = Suc n)"
  by (auto simp: get_learner_def split: option.splits sum.splits prod.splits if_splits
           dest: new_learner_Inl)

lemma get_learner_Inr:
  "get_learner self pto n = (Inr l, self', n') \<Longrightarrow>
   \<exists>pt lt. pto = Some pt \<and> (pt = CLASSIFICATION \<or> pt = REGRESSION) \<and> fits self = Some lt \<and>
     (\<exists>c. fits_getitem lt pt = Inr (Some c)) \<and>
     (learners self pt = Some (Some l) \<and> self' = self \<and> n' = n \<or>
      learners self pt = Some None \<and> new_learner self pt n = (Inr l, n') \<and>
      self' = self\<lparr>learners := (learners self)(pt \<mapsto> Some l)\<rparr>)"
  apply (cases "fits self")
   apply (simp add: get_learner_def handled_problem_types_def)
  apply (cases pto)
   apply (simp add: get_learner_None)
  apply (auto simp: get_learner_def handled_Some split: option.splits sum.splits prod.splits if_splits)
  done

subsection \<open>The cache invariant\<close>

lemma cache_ok_init: "cache_ok lt (Fitter_init (Some lt) udp pp kw)"
  by (auto simp: cache_ok_def Fitter_init_def CLASSIFICATION_def REGRESSION_def split: if_splits)

lemma get_learner_frame:
  "get_learner self pto n = (r, self', n') \<Longrightarrow>
   fits self' = fits self \<and> kwargs self' = kwargs self \<and>
   problem_type self' = problem_type self \<and>
   use_default_preprocessors self' = use_default_preprocessors self \<and> n \<le> n'"
  by (cases r) (auto dest!: get_learner_Inl get_learner_Inr new_learner_Inr)

lemma cache_ok_get_learner:
  assumes "cache_ok lt self" "get_learner self pto n = (r, self', n')"
  shows "cache_ok lt self'"
proof (cases r)
  case (Inl e)
  with assms show ?thesis by (auto dest: get_learner_Inl)
next
  case (Inr l)
  with assms(2) obtain pt lt' where pt: "pto = Some pt" "pt = CLASSIFICATION \<or> pt = REGRESSION"
    "fits self = Some lt'"
    and alt: "learners self pt = Some (Some l) \<and> self' = self \<and> n' = n \<or>
      learners self pt = Some None \<and> new_learner self pt n = (Inr l, n') \<and>
      self' = self\<lparr>learners := (learners self)(pt \<mapsto> Some l)\<rparr>"
    by (blast dest: get_learner_Inr)
  from alt show ?thesis
  proof
    assume "learners self pt = Some (Some l) \<and> self' = self \<and> n' = n"
    with assms(1) show ?thesis by simp
  next
    assume new: "learners self pt = Some None \<and> new_learner self pt n = (Inr l, n') \<and>
      self' = self\<lparr>learners := (learners self)(pt \<mapsto> Some l)\<rparr>"
    then obtain c where "fits_getitem lt' pt = Inr (Some c)" "cls l = c"
      "attrs l ''use_default_preprocessors'' = Some (PyBool (use_default_preprocessors self))"
      by (auto dest!: new_learner_Inr simp: pt)
    with new assms(1) pt show ?thesis
      by (auto simp: cache_ok_def)
  qed
qed

lemma call_frame:
  "call self data n = (r, self', n') \<Longrightarrow>
   fits self' = fits self \<and> kwargs self' = kwargs self \<and>
   problem_type self' = Some (problem_type_of data) \<and>
   use_default_preprocessors self' = use_default_preprocessors self \<and> n \<le> n'"
  by (auto simp: call_def Let_def problem_type_of_def split: prod.splits sum.splits
           dest!: get_learner_frame)

lemma cache_ok_problem_type:
  "cache_ok lt self \<Longrightarrow> cache_ok lt (self\<lparr>problem_type := p\<rparr>)"
  by (simp add: cache_ok_def)

lemma cache_ok_call:
  "cache_ok lt self \<Longrightarrow> call self data n = (r, self', n') \<Longrightarrow> cache_ok lt self'"
  by (auto simp: call_def Let_def split: prod.splits sum.splits
           dest: cache_ok_get_learner [OF cache_ok_problem_type])

lemma cache_ok_getattr:
  "cache_ok lt self \<Longrightarrow> getattr self item n = (r, self', n') \<Longrightarrow> cache_ok lt self'"
  by (auto simp: getattr_def split: prod.splits sum.splits dest: cache_ok_get_learner)

lemma cache_ok_step:
  assumes "cache_ok lt (fst s)"
  shows "cache_ok lt (fst (step s rq))"
proof -
  obtain self n where s: "s = (self, n)" by (cases s)
  show ?thesis
  proof (cases rq)
    case (Call data)
    obtain r self' n' where "call self data n = (r, self', n')" by (metis prod_cases3)
    with assms s Call show ?thesis by (auto dest: cache_ok_call)
  next
    case (GetLearner pto)
    obtain r self' n' where "get_learner self pto n = (r, self', n')" by (metis prod_cases3)
    with assms s GetLearner show ?thesis by (auto dest: cache_ok_get_learner)
  next
    case (GetAttr item)
    obtain r self' n' where "getattr self item n = (r, self', n')" by (metis prod_cases3)
    with assms s GetAttr show ?thesis by (auto dest: cache_ok_getattr)
  qed
qed

lemma run_Nil: "run s [] = s"
  by (simp add: run_def)

lemma run_Cons: "run s (rq # rs) = run (step s rq) rs"
  by (simp add: run_def)

lemma cache_ok_run:
  "cache_ok lt (fst s) \<Longrightarrow> cache_ok lt (fst (run s rs))"
proof (induction rs arbitrary: s)
  case Nil
  then show ?case by (simp add: run_Nil)
next
  case (Cons rq rs)
  then show ?case by (simp add: run_Cons cache_ok_step)
qed




lemma cache_ok_reachable:
  "(self, n) = run (Fitter_init (Some lt) udp pp kw, n0) rs \<Longrightarrow> cache_ok lt self"
  using cache_ok_run [of lt "(Fitter_init (Some lt) udp pp kw, n0)" rs] cache_ok_init [of lt udp pp kw]
  by (metis fst_conv)

subsection \<open>Unbound kinds, cached learners and the proxy\<close>

lemma get_learner_bound_not_unsupported:
  assumes f: "fits self = Some lt" and k: "pt = CLASSIFICATION \<or> pt = REGRESSION"
    and c: "fits_getitem lt pt = Inr (Some c)"
  shows "fst (get_learner self (Some pt) n) \<noteq> Inl (AttributeError no_learner_msg)"
proof (cases "learners self pt")
  case None
  with f k c show ?thesis by (auto simp: get_learner_def handled_Some)
next
  case (Some v)
  show ?thesis
  proof (cases v)
    case None
    with Some have miss: "learners self pt = Some None" by simp
    show ?thesis
      using get_learner_miss [OF f k c miss, of n] new_learner_bound [OF f c, of n]
      by (auto split: sum.splits)
  next
    case (Some l)
    with \<open>learners self pt = Some v\<close> have "learners self pt = Some (Some l)" by simp
    from get_learner_cached [OF f k c this, of n] show ?thesis by simp
  qed
qed

lemma fits_getitem_kind:
  "pt = CLASSIFICATION \<or> pt = REGRESSION \<Longrightarrow> \<exists>v. fits_getitem lt pt = Inr v"
  by (auto simp: fits_getitem_def CLASSIFICATION_def REGRESSION_def)

lemma call_unbound:
  assumes "fits self = Some lt" "fits_getitem lt (problem_type_of d) = Inr None"
  shows "call self d n =
     (Inl (AttributeError no_learner_msg), self\<lparr>problem_type := Some (problem_type_of d)\<rparr>, n)"
proof -
  let ?s = "self\<lparr>problem_type := Some (problem_type_of d)\<rparr>"
  have "fits ?s = Some lt" using assms by simp
  from get_learner_unbound [OF this assms(2), of n]
  show ?thesis by (simp add: call_def Let_def problem_type_of_def)
qed

lemma getattr_unbound:
  assumes "fits self = Some lt" "problem_type self = Some pt" "fits_getitem lt pt = Inr None"
  shows "getattr self item n = (Inl (AttributeError no_learner_msg), self, n)"
  using get_learner_unbound [OF assms(1,3), of n] assms(2) by (simp add: getattr_def)

lemma getattr_unset:
  assumes "fits self = Some lt" "problem_type self = None"
  shows "getattr self item n = (Inl (AttributeError no_learner_msg), self, n)"
  using get_learner_None [OF assms(1), of n] assms(2) by (simp add: getattr_def)

lemma run_getattr_unbound:
  assumes "fits self = Some lt" "problem_type self = Some pt" "fits_getitem lt pt = Inr None"
  shows "run (self, n) (map GetAttr items) = (self, n)"
proof (induction items)
  case Nil
  show ?case by (simp add: run_Nil)
next
  case (Cons item items)
  then show ?case by (simp add: run_Cons getattr_unbound [OF assms])
qed

lemma get_learner_success:
  assumes "get_learner self pto n = (Inr l, self', n')"
  shows "\<exists>pt lt c. pto = Some pt \<and> (pt = CLASSIFICATION \<or> pt = REGRESSION) \<and>
           fits self' = Some lt \<and> fits_getitem lt pt = Inr (Some c) \<and>
           learners self' pt = Some (Some l)"
  using get_learner_Inr [OF assms] by auto

lemma call_success:
  assumes "call self d n = (Inr m, self', n')"
  shows "\<exists>l lt c. fits self' = Some lt \<and> fits_getitem lt (problem_type_of d) = Inr (Some c) \<and>
           learners self' (problem_type_of d) = Some (Some l) \<and>
           problem_type self' = Some (problem_type_of d) \<and> learner_call l d = Inr m"
proof -
  let ?s = "self\<lparr>problem_type := Some (problem_type_of d)\<rparr>"
  from assms obtain l where g: "get_learner ?s (Some (problem_type_of d)) n = (Inr l, self', n')"
    and m: "learner_call l d = Inr m"
    by (auto simp: call_def Let_def problem_type_of_def split: prod.splits sum.splits)
  from get_learner_frame [OF g] have "problem_type self' = Some (problem_type_of d)" by simp
  with get_learner_success [OF g] m show ?thesis by auto
qed

lemma call_cached:
  assumes f: "fits self = Some lt" and c: "fits_getitem lt (problem_type_of d) = Inr (Some c)"
    and l: "learners self (problem_type_of d) = Some (Some l)"
    and p: "problem_type self = Some (problem_type_of d)"
  shows "call self d n = (learner_call l d, self, n)"
proof -
  have k: "problem_type_of d = CLASSIFICATION \<or> problem_type_of d = REGRESSION"
    by (simp add: problem_type_of_def)
  have s: "self\<lparr>problem_type := Some (problem_type_of d)\<rparr> = self" using p by simp
  have "call self d n =
     (case get_learner (self\<lparr>problem_type := Some (problem_type_of d)\<rparr>)
             (Some (problem_type_of d)) n of
        (Inl e, self2, n') \<Rightarrow> (Inl e, self2, n')
      | (Inr l, self2, n') \<Rightarrow> (learner_call l d, self2, n'))"
    by (simp add: call_def Let_def problem_type_of_def)
  then have "call self d n =
     (case get_learner self (Some (problem_type_of d)) n of
        (Inl e, self2, n') \<Rightarrow> (Inl e, self2, n')
      | (Inr l, self2, n') \<Rightarrow> (learner_call l d, self2, n'))"
    by (simp only: s)
  with get_learner_cached [OF f k c l, of n] show ?thesis by simp
qed

lemma getattr_cached:
  assumes f: "fits self = Some lt" and k: "pt = CLASSIFICATION \<or> pt = REGRESSION"
    and c: "fits_getitem lt pt = Inr (Some c)"
    and l: "learners self pt = Some (Some l)" and p: "problem_type self = Some pt"
  shows "getattr self item n = (py_getattr l item, self, n)"
  using get_learner_cached [OF f k c l, of n] p by (simp add: getattr_def)

subsection \<open>What a sequence of requests preserves\<close>

lemma getattr_frame:
  "getattr self item n = (r, self', n') \<Longrightarrow>
   fits self' = fits self \<and> kwargs self' = kwargs self \<and>
   problem_type self' = problem_type self \<and>
   use_default_preprocessors self' = use_default_preprocessors self \<and> n \<le> n'"
  by (auto simp: getattr_def split: prod.splits sum.splits dest!: get_learner_frame)

lemma get_learner_keeps:
  assumes "learners self pt = Some (Some l)" "get_learner self pto n = (r, self', n')"
  shows "learners self' pt = Some (Some l)"
proof (cases r)
  case (Inl e)
  with assms show ?thesis by (auto dest: get_learner_Inl)
next
  case (Inr l')
  with assms show ?thesis by (auto dest!: get_learner_Inr)
qed

lemma call_keeps:
  assumes "learners self pt = Some (Some l)" "call self d n = (r, self', n')"
  shows "learners self' pt = Some (Some l)"
proof -
  let ?s = "self\<lparr>problem_type := Some (problem_type_of d)\<rparr>"
  have l: "learners ?s pt = Some (Some l)" using assms(1) by simp
  from assms(2) obtain r1 where "get_learner ?s (Some (problem_type_of d)) n = (r1, self', n')"
    by (auto simp: call_def Let_def problem_type_of_def split: prod.splits sum.splits)
  from get_learner_keeps [OF l this] show ?thesis .
qed

lemma getattr_keeps:
  assumes "learners self pt = Some (Some l)" "getattr self item n = (r, self', n')"
  shows "learners self' pt = Some (Some l)"
proof -
  from assms(2) obtain r1 where "get_learner self (problem_type self) n = (r1, self', n')"
    by (auto simp: getattr_def split: prod.splits sum.splits)
  from get_learner_keeps [OF assms(1) this] show ?thesis .
qed

lemma step_keeps:
  assumes "learners (fst s) pt = Some (Some l)"
  shows "learners (fst (step s rq)) pt = Some (Some l) \<and>
         fits (fst (step s rq)) = fits (fst s) \<and>
         use_default_preprocessors (fst (step s rq)) = use_default_preprocessors (fst s)"
proof -
  obtain self n where s: "s = (self, n)" by (cases s)
  show ?thesis
  proof (cases rq)
    case (Call data)
    obtain r self' n' where g: "call self data n = (r, self', n')" by (metis prod_cases3)
    from call_keeps [OF _ g] call_frame [OF g] assms s Call g show ?thesis by simp
  next
    case (GetLearner pto)
    obtain r self' n' where g: "get_learner self pto n = (r, self', n')" by (metis prod_cases3)
    from get_learner_keeps [OF _ g] get_learner_frame [OF g] assms s GetLearner g
    show ?thesis by simp
  next
    case (GetAttr item)
    obtain r self' n' where g: "getattr self item n = (r, self', n')" by (metis prod_cases3)
    from getattr_keeps [OF _ g] getattr_frame [OF g] assms s GetAttr g show ?thesis by simp
  qed
qed

lemma step_frame:
  "fits (fst (step s rq)) = fits (fst s) \<and>
   use_default_preprocessors (fst (step s rq)) = use_default_preprocessors (fst s)"
proof -
  obtain self n where s: "s = (self, n)" by (cases s)
  show ?thesis
  proof (cases rq)
    case (Call data)
    obtain r self' n' where g: "call self data n = (r, self', n')" by (metis prod_cases3)
    from call_frame [OF g] s Call g show ?thesis by simp
  next
    case (GetLearner pto)
    obtain r self' n' where g: "get_learner self pto n = (r, self', n')" by (metis prod_cases3)
    from get_learner_frame [OF g] s GetLearner g show ?thesis by simp
  next
    case (GetAttr item)
    obtain r self' n' where g: "getattr self item n = (r, self', n')" by (metis prod_cases3)
    from getattr_frame [OF g] s GetAttr g show ?thesis by simp
  qed
qed

lemma run_frame:
  "fits (fst (run s rs)) = fits (fst s) \<and>
   use_default_preprocessors (fst (run s rs)) = use_default_preprocessors (fst s)"
proof (induction rs arbitrary: s)
  case Nil
  show ?case by (simp add: run_Nil)
next
  case (Cons rq rs)
  from Cons [of "step s rq"] step_frame [of s rq] show ?case by (simp add: run_Cons)
qed

lemma run_keeps:
  "learners (fst s) pt = Some (Some l) \<Longrightarrow> learners (fst (run s rs)) pt = Some (Some l)"
proof (induction rs arbitrary: s)
  case Nil
  then show ?case by (simp add: run_Nil)
next
  case (Cons rq rs)
  from step_keeps [OF Cons.prems, of rq] have "learners (fst (step s rq)) pt = Some (Some l)"
    by simp
  from Cons.IH [OF this] show ?case by (simp add: run_Cons)
qed

lemma run_same_kind_calls:
  assumes f: "fits self = Some lt" and k: "pt = CLASSIFICATION \<or> pt = REGRESSION"
    and c: "fits_getitem lt pt = Inr (Some c)"
    and l: "learners self pt = Some (Some l)" and p: "problem_type self = Some pt"
    and ds: "\<forall>d \<in> set ds. problem_type_of d = pt"
  shows "run (self, n) (map Call ds) = (self, n)"
  using ds
proof (induction ds)
  case Nil
  show ?case by (simp add: run_Nil)
next
  case (Cons d ds)
  then have d: "problem_type_of d = pt" by simp
  have "call self d n = (learner_call l d, self, n)"
    using call_cached [of self lt d c l n] f c l p d by simp
  with Cons show ?case by (simp add: run_Cons)
qed

subsection \<open>Which slots a call can populate\<close>

lemma populated_get_learner:
  assumes "get_learner self (Some pt) n = (r, self', n')" "populated self' j"
  shows "populated self j \<or> j = pt"
proof (cases r)
  case (Inl e)
  with assms show ?thesis by (auto dest: get_learner_Inl)
next
  case (Inr l)
  with assms show ?thesis
    by (auto dest!: get_learner_Inr simp: populated_def split: if_splits)
qed

lemma populated_call:
  assumes g: "call self d n = (r, self', n')" and inv: "\<forall>j. populated self j \<longrightarrow> j = problem_type_of d"
  shows "problem_type self' = Some (problem_type_of d) \<and>
         (\<forall>j. populated self' j \<longrightarrow> j = problem_type_of d)"
proof -
  let ?s = "self\<lparr>problem_type := Some (problem_type_of d)\<rparr>"
  from g obtain r1 where g1: "get_learner ?s (Some (problem_type_of d)) n = (r1, self', n')"
    by (auto simp: call_def Let_def problem_type_of_def split: prod.splits sum.splits)
  have "populated ?s j = populated self j" for j by (simp add: populated_def)
  with populated_get_learner [OF g1] inv
  have "\<forall>j. populated self' j \<longrightarrow> j = problem_type_of d" by blast
  with call_frame [OF g] show ?thesis by simp
qed

lemma run_same_kind:
  assumes "\<forall>d \<in> set ds. problem_type_of d = k" "\<forall>j. populated self j \<longrightarrow> j = k"
    "ds \<noteq> [] \<or> (\<forall>j. \<not> populated self j)"
  shows "\<forall>j. populated (fst (run (self, n) (map Call ds))) j \<longrightarrow>
           problem_type (fst (run (self, n) (map Call ds))) = Some j \<and> j = k"
  using assms
proof (induction ds arbitrary: self n)
  case Nil
  then show ?case by (simp add: run_Nil)
next
  case (Cons d ds)
  obtain r self' n' where g: "call self d n = (r, self', n')" by (metis prod_cases3)
  from Cons.prems have d: "problem_type_of d = k" by simp
  from populated_call [OF g] Cons.prems(2) d
  have p: "problem_type self' = Some k" and inv: "\<forall>j. populated self' j \<longrightarrow> j = k" by auto
  show ?case
  proof (cases ds)
    case Nil
    with g p inv show ?thesis by (simp add: run_Cons run_Nil)
  next
    case (Cons d' ds')
    then have "ds \<noteq> [] \<or> (\<forall>j. \<not> populated self' j)" by simp
    from Cons.IH [OF _ inv this, of n'] Cons.prems(1) g show ?thesis
      by (simp add: run_Cons)
  qed
qed

lemma nth_in_drop_1:
  assumes "1 \<le> i" "i < length xs"
  shows "xs ! i \<in> set (drop 1 xs)"
proof -
  from assms have "drop 1 xs ! (i - 1) = xs ! i" by simp
  moreover from assms have "i - 1 < length (drop 1 xs)" by simp
  ultimately show ?thesis by (metis nth_mem)
qed

subsection \<open>Evaluating the examples\<close>

lemmas model_defs = call_def get_learner_def new_learner_def get_kwargs_def construct_def
  handled_problem_types_def fits_getitem_def get_learner_kwargs_def learner_call_def
  py_getattr_def getattr_def Fitter_init_def CLASSIFICATION_def REGRESSION_def
  problem_type_of_def run_def populated_def

lemmas example_defs = abc_fitter_def ac_types_def both_fitter_def both_types_def
  ACLearner_def RegLearner_def discrete_data_def continuous_data_def stores_kwargs_def
  returns_model_def abc_config_def


lemma local_restrict:
  "kwargs local_fitter |` (get_learner_kwargs LocalVarLearner \<inter> dom (kwargs local_fitter)) =
   tmp_config"
  by (rule ext)
     (simp add: local_fitter_def Fitter_init_def tmp_config_def LocalVarLearner_def
        get_learner_kwargs_def restrict_map_def)

lemma local_get_kwargs:
  "get_kwargs local_fitter (kwargs local_fitter) CLASSIFICATION = Inr tmp_config"
proof -
  have f: "fits local_fitter = Some local_types"
    by (simp add: local_fitter_def Fitter_init_def)
  have g: "fits_getitem local_types CLASSIFICATION = Inr (Some LocalVarLearner)"
    by (simp add: local_types_def fits_getitem_def CLASSIFICATION_def)
  from f g show ?thesis by (simp add: get_kwargs_def local_restrict)
qed

subsection \<open>Variable names, parameters and local variables\<close>




subsection \<open>Dispatch on the kind of the target\<close>



subsection \<open>The check of the metaclass\<close>

lemma FitterMeta_new_raises_iff:
  "(FitterMeta_new name bases ns = Inl (AssertionError invalid_fits_msg)) =
     (truthy (dict_get ns ''name'' (NsBool False)) \<and>
      \<not> is_LearnerTypes (dict_get ns ''__fits__'' NsNone))"
  by (simp add: FitterMeta_new_def)

lemma named_subtype_without_fits_rejected:
  "FitterMeta_new ''TreeLearner'' [''Fitter''] named_namespace =
     Inl (AssertionError invalid_fits_msg)"
  by (simp add: FitterMeta_new_def dict_get_def named_namespace_def)

lemma named_subtype_with_fits_created:
  "FitterMeta_new ''TreeLearner'' [''Fitter''] bound_namespace =
     Inr \<lparr>class_name = ''TreeLearner'', class_bases = [''Fitter''],
          class_dict = bound_namespace\<rparr>"
  by (simp add: FitterMeta_new_def dict_get_def bound_namespace_def)

text \<open>
  C2. Every dispatcher subtype declared without a \<^verbatim>\<open>__fits__\<close> that is an instance of
  \<^verbatim>\<open>LearnerTypes\<close> is to fail at its definition, and the docstring of the metaclass
  (lines 9-10) says that each subclass overrides \<^verbatim>\<open>__fits__\<close> with a valid value.
  The metaclass does not ensure it: the check of lines 13-14 is made only when the
  body of the class statement defines a \<^verbatim>\<open>name\<close> that is true. The class statement
  \<^verbatim>\<open>class TreeLearner(Fitter): pass\<close>, whose body defines neither \<^verbatim>\<open>name\<close> nor
  \<^verbatim>\<open>__fits__\<close>, is accepted and the class is created; so is one whose \<^verbatim>\<open>name\<close> is
  an object that is false.
\<close>

theorem nameless_subtype_is_created:
  "nameless_namespace ''name'' = None \<and>
   nameless_namespace ''__fits__'' = None \<and>
   \<not> is_LearnerTypes (dict_get nameless_namespace ''__fits__'' NsNone) \<and>
   FitterMeta_new ''TreeLearner'' [''Fitter''] nameless_namespace =
     Inr \<lparr>class_name = ''TreeLearner'', class_bases = [''Fitter''],
          class_dict = nameless_namespace\<rparr> \<and>
   falsy_name_namespace ''name'' = Some (NsObject ''EmptyLabel()'' False) \<and>
   falsy_name_namespace ''__fits__'' = None \<and>
   FitterMeta_new ''TreeLearner'' [''Fitter''] falsy_name_namespace =
     Inr \<lparr>class_name = ''TreeLearner'', class_bases = [''Fitter''],
          class_dict = falsy_name_namespace\<rparr>"
  by (simp add: FitterMeta_new_def dict_get_def nameless_namespace_def
        falsy_name_namespace_def)

subsection \<open>Parameter filtering\<close>




subsection \<open>Problem types without a learner\<close>

text \<open>
  C4. For a dispatcher whose class has a binding, \<^verbatim>\<open>get_learner\<close> on either of the
  two problem types raises the error of line 59 exactly when the slot of that type
  in the binding is \<^verbatim>\<open>None\<close>. A call on a dataset whose problem type is unbound
  raises that error, allocates no learner object, changes of the dispatcher only
  \<^verbatim>\<open>problem_type\<close>, and so leaves every slot of the cache as it was: on a new
  dispatcher every slot is still empty afterwards.
\<close>

theorem unsupported_kind_iff_unbound:
  assumes f: "fits self = Some lt"
  shows "(pt = CLASSIFICATION \<or> pt = REGRESSION \<longrightarrow>
            (fst (get_learner self (Some pt) n) = Inl (AttributeError no_learner_msg)) =
            (fits_getitem lt pt = Inr None)) \<and>
         (fits_getitem lt (problem_type_of d) = Inr None \<longrightarrow>
            call self d n' =
              (Inl (AttributeError no_learner_msg),
               self\<lparr>problem_type := Some (problem_type_of d)\<rparr>, n') \<and>
            learners (fst (snd (call self d n'))) = learners self \<and>
            (\<forall>j. populated (fst (snd (call self d n'))) j = populated self j))"
proof -
  have "(fst (get_learner self (Some pt) n) = Inl (AttributeError no_learner_msg)) =
            (fits_getitem lt pt = Inr None)" if k: "pt = CLASSIFICATION \<or> pt = REGRESSION"
  proof -
    from fits_getitem_kind [OF k] obtain v where v: "fits_getitem lt pt = Inr v" ..
    show ?thesis
    proof (cases v)
      case None
      with v get_learner_unbound [OF f, of pt n] show ?thesis by simp
    next
      case (Some c)
      with v get_learner_bound_not_unsupported [OF f k, of c n] show ?thesis by simp
    qed
  qed
  moreover have "call self d n' =
              (Inl (AttributeError no_learner_msg),
               self\<lparr>problem_type := Some (problem_type_of d)\<rparr>, n') \<and>
            learners (fst (snd (call self d n'))) = learners self \<and>
            (\<forall>j. populated (fst (snd (call self d n'))) j = populated self j)"
    if u: "fits_getitem lt (problem_type_of d) = Inr None"
    using call_unbound [OF f u, of n'] by (simp add: populated_def)
  ultimately show ?thesis by blast
qed

theorem unsupported_kind_iff_unbound_witness:
  "fits abc_fitter = Some ac_types \<and>
   fits_getitem ac_types REGRESSION = Inr None \<and>
   fits_getitem ac_types CLASSIFICATION \<noteq> Inr None \<and>
   problem_type_of continuous_data = REGRESSION \<and>
   fst (get_learner abc_fitter (Some REGRESSION) 0) = Inl (AttributeError no_learner_msg) \<and>
   fst (get_learner abc_fitter (Some CLASSIFICATION) 0) \<noteq> Inl (AttributeError no_learner_msg) \<and>
   call abc_fitter continuous_data 0 =
     (Inl (AttributeError no_learner_msg), abc_fitter\<lparr>problem_type := Some REGRESSION\<rparr>, 0) \<and>
   learners (fst (snd (call abc_fitter continuous_data 0))) CLASSIFICATION = Some None \<and>
   learners (fst (snd (call abc_fitter continuous_data 0))) REGRESSION = Some None \<and>
   populated (fst (snd (call abc_fitter continuous_data 0))) CLASSIFICATION = False \<and>
   populated (fst (snd (call abc_fitter continuous_data 0))) REGRESSION = False"
proof -
  have f: "fits abc_fitter = Some ac_types" by (simp add: abc_fitter_def Fitter_init_def)
  have u: "fits_getitem ac_types REGRESSION = Inr None"
    by (simp add: fits_getitem_def ac_types_def REGRESSION_def)
  have b: "fits_getitem ac_types CLASSIFICATION \<noteq> Inr None"
    by (simp add: fits_getitem_def ac_types_def CLASSIFICATION_def)
  have k: "problem_type_of continuous_data = REGRESSION"
    by (simp add: problem_type_of_def continuous_data_def)
  have l: "learners abc_fitter CLASSIFICATION = Some None \<and>
           learners abc_fitter REGRESSION = Some None"
    by (simp add: abc_fitter_def Fitter_init_def CLASSIFICATION_def REGRESSION_def)
  note r = unsupported_kind_iff_unbound [OF f, of REGRESSION 0 continuous_data 0]
  note c = unsupported_kind_iff_unbound [OF f, of CLASSIFICATION 0 continuous_data 0]
  from r c f u b k l show ?thesis by (simp add: populated_def)
qed

subsection \<open>Reuse of the cached learner\<close>

text \<open>
  C5. After a call that returned, the slot of the dataset's problem type holds the
  learner that produced the result. A second call on a dataset of the same kind is
  answered by that same learner object and changes neither the dispatcher nor the
  count of allocated learner objects, and so does any number of such calls. After
  any further sequence of requests whatsoever, \<^verbatim>\<open>get_learner\<close> for that problem
  type still returns that same learner object and allocates nothing: for one
  dispatcher, once a learner of a kind is cached no other is constructed for it.
\<close>

theorem repeated_call_reuses_cached_learner:
  assumes g: "call self d1 n = (Inr m1, self1, n1)"
    and same: "has_discrete_class d2 = has_discrete_class d1"
  shows "\<exists>l. learners self1 (problem_type_of d1) = Some (Some l) \<and>
           learner_call l d1 = Inr m1 \<and>
           call self1 d2 n1 = (learner_call l d2, self1, n1) \<and>
           (\<forall>ds. (\<forall>d \<in> set ds. has_discrete_class d = has_discrete_class d1) \<longrightarrow>
                 run (self1, n1) (map Call ds) = (self1, n1)) \<and>
           (\<forall>rs. get_learner (fst (run (self1, n1) rs)) (Some (problem_type_of d1))
                   (snd (run (self1, n1) rs)) =
                 (Inr l, run (self1, n1) rs))"
proof -
  let ?k = "problem_type_of d1"
  from call_success [OF g] obtain l lt c where
    f: "fits self1 = Some lt" and c: "fits_getitem lt ?k = Inr (Some c)"
    and l: "learners self1 ?k = Some (Some l)" and p: "problem_type self1 = Some ?k"
    and m: "learner_call l d1 = Inr m1"
    by blast
  have k: "?k = CLASSIFICATION \<or> ?k = REGRESSION" by (simp add: problem_type_of_def)
  have k2: "problem_type_of d2 = ?k" using same by (simp add: problem_type_of_def)
  have "call self1 d2 n1 = (learner_call l d2, self1, n1)"
    using call_cached [of self1 lt d2 c l n1] f c l p k2 by simp
  moreover have "run (self1, n1) (map Call ds) = (self1, n1)"
    if "\<forall>d \<in> set ds. has_discrete_class d = has_discrete_class d1" for ds
  proof -
    from that have "\<forall>d \<in> set ds. problem_type_of d = ?k" by (simp add: problem_type_of_def)
    from run_same_kind_calls [OF f k c l p this] show ?thesis .
  qed
  moreover have "get_learner (fst (run (self1, n1) rs)) (Some ?k) (snd (run (self1, n1) rs)) =
                 (Inr l, run (self1, n1) rs)" for rs
  proof -
    have "fits (fst (run (self1, n1) rs)) = Some lt" using run_frame [of "(self1, n1)" rs] f by simp
    moreover have "learners (fst (run (self1, n1) rs)) ?k = Some (Some l)"
      using run_keeps [of "(self1, n1)" ?k l rs] l by simp
    ultimately show ?thesis
      using get_learner_cached [OF _ k c, of "fst (run (self1, n1) rs)" l "snd (run (self1, n1) rs)"]
      by simp
  qed
  ultimately show ?thesis using l m by blast
qed

theorem repeated_call_reuses_cached_learner_witness:
  "call both_fitter discrete_data 0 = (Inr (PyObj ''classifier''), both_classification_used) \<and>
   has_discrete_class other_discrete_data = has_discrete_class discrete_data \<and>
   snd both_classification_used = 1 \<and>
   call (fst both_classification_used) other_discrete_data 1 =
     (Inr (PyObj ''classifier''), both_classification_used) \<and>
   (\<exists>l. learners (fst both_classification_used) CLASSIFICATION = Some (Some l) \<and> oid l = 0 \<and>
        get_learner
          (fst (run both_classification_used [Call continuous_data, Call other_discrete_data]))
          (Some CLASSIFICATION)
          (snd (run both_classification_used [Call continuous_data, Call other_discrete_data])) =
        (Inr l, run both_classification_used [Call continuous_data, Call other_discrete_data])) \<and>
   snd (run both_classification_used [Call continuous_data, Call other_discrete_data]) = 2"
proof -
  have g: "call both_fitter discrete_data 0 =
     (Inr (PyObj ''classifier''), fst both_classification_used, 1)"
    by (simp add: model_defs example_defs other_discrete_data_def both_classification_used_def Let_def)
  have n: "snd both_classification_used = 1"
    by (simp add: model_defs example_defs other_discrete_data_def both_classification_used_def Let_def)
  have same: "has_discrete_class other_discrete_data = has_discrete_class discrete_data"
    by (simp add: other_discrete_data_def discrete_data_def)
  have k: "problem_type_of discrete_data = CLASSIFICATION"
    by (simp add: problem_type_of_def discrete_data_def)
  have b: "(fst both_classification_used, 1) = both_classification_used"
    using n by (metis prod.collapse)
  from repeated_call_reuses_cached_learner [OF g same]
  obtain l where l: "learners (fst both_classification_used) CLASSIFICATION = Some (Some l)"
    and c: "call (fst both_classification_used) other_discrete_data 1 =
       (learner_call l other_discrete_data, both_classification_used)"
    and r: "\<forall>rs. get_learner (fst (run both_classification_used rs)) (Some CLASSIFICATION)
                   (snd (run both_classification_used rs)) =
                 (Inr l, run both_classification_used rs)"
    unfolding k b by blast
  have e: "learners (fst both_classification_used) CLASSIFICATION =
     Some (Some \<lparr>oid = 0, cls = ACLearner,
                 attrs = ac_config(''use_default_preprocessors'' \<mapsto> PyBool False)\<rparr>)"
    apply (simp add: model_defs example_defs other_discrete_data_def both_classification_used_def Let_def)
    apply (rule ext)
    apply (simp add: restrict_map_def ac_config_def)
    done
  with l have o: "oid l = 0" and cl: "cls l = ACLearner" by auto
  from cl have "learner_call l other_discrete_data = Inr (PyObj ''classifier'')"
    by (simp add: learner_call_def ACLearner_def returns_model_def)
  with c have c': "call (fst both_classification_used) other_discrete_data 1 =
     (Inr (PyObj ''classifier''), both_classification_used)" by simp
  have t: "snd (run both_classification_used [Call continuous_data, Call other_discrete_data]) = 2"
    by (simp add: model_defs example_defs other_discrete_data_def both_classification_used_def Let_def)
  from r have "get_learner
          (fst (run both_classification_used [Call continuous_data, Call other_discrete_data]))
          (Some CLASSIFICATION)
          (snd (run both_classification_used [Call continuous_data, Call other_discrete_data])) =
        (Inr l, run both_classification_used [Call continuous_data, Call other_discrete_data])"
    by (rule spec)
  with l o have ex: "\<exists>l. learners (fst both_classification_used) CLASSIFICATION = Some (Some l) \<and>
        oid l = 0 \<and>
        get_learner
          (fst (run both_classification_used [Call continuous_data, Call other_discrete_data]))
          (Some CLASSIFICATION)
          (snd (run both_classification_used [Call continuous_data, Call other_discrete_data])) =
        (Inr l, run both_classification_used [Call continuous_data, Call other_discrete_data])"
    by (intro exI [of _ l] conjI)
  from g b have g': "call both_fitter discrete_data 0 =
     (Inr (PyObj ''classifier''), both_classification_used)" by simp
  show ?thesis
    by (intro conjI) (rule g' same n c' ex t)+
qed

subsection \<open>Attribute proxying\<close>

text \<open>
  C6. After a call that returned, reading through \<^verbatim>\<open>__getattr__\<close> an attribute
  that the dispatcher does not have gives what \<^verbatim>\<open>getattr\<close> gives on the learner
  cached for the recorded problem type, so the learner's value when the learner
  has the attribute; it changes nothing. While \<^verbatim>\<open>problem_type\<close> is still
  \<^verbatim>\<open>None\<close>, on a dispatcher whose class has a binding, the same read raises the
  error of line 59; this is so on every newly constructed dispatcher of such a class.
\<close>

theorem getattr_proxies_active_learner:
  "(call self d n = (Inr m, self', n') \<longrightarrow>
      (\<exists>l. problem_type self' = Some (problem_type_of d) \<and>
           learners self' (problem_type_of d) = Some (Some l) \<and>
           (\<forall>item. getattr self' item n' = (py_getattr l item, self', n')) \<and>
           (\<forall>item v. attrs l item = Some v \<longrightarrow> getattr self' item n' = (Inr v, self', n')))) \<and>
   (fits self = Some lt \<longrightarrow> problem_type self = None \<longrightarrow>
      getattr self item n = (Inl (AttributeError no_learner_msg), self, n)) \<and>
   getattr (Fitter_init (Some lt) udp pp kw) item n =
     (Inl (AttributeError no_learner_msg), Fitter_init (Some lt) udp pp kw, n)"
proof -
  have "\<exists>l. problem_type self' = Some (problem_type_of d) \<and>
           learners self' (problem_type_of d) = Some (Some l) \<and>
           (\<forall>item. getattr self' item n' = (py_getattr l item, self', n')) \<and>
           (\<forall>item v. attrs l item = Some v \<longrightarrow> getattr self' item n' = (Inr v, self', n'))"
    if g: "call self d n = (Inr m, self', n')"
  proof -
    from call_success [OF g] obtain l lt' c where
      f: "fits self' = Some lt'" and c: "fits_getitem lt' (problem_type_of d) = Inr (Some c)"
      and l: "learners self' (problem_type_of d) = Some (Some l)"
      and p: "problem_type self' = Some (problem_type_of d)"
      by blast
    have k: "problem_type_of d = CLASSIFICATION \<or> problem_type_of d = REGRESSION"
      by (simp add: problem_type_of_def)
    have a: "getattr self' item n' = (py_getattr l item, self', n')" for item
      using getattr_cached [OF f k c l p] .
    then have "getattr self' item n' = (Inr v, self', n')" if "attrs l item = Some v" for item v
      using that by (simp add: py_getattr_def)
    with a l p show ?thesis by blast
  qed
  moreover have "getattr self item n = (Inl (AttributeError no_learner_msg), self, n)"
    if "fits self = Some lt" "problem_type self = None"
    using getattr_unset [OF that] .
  moreover have "getattr (Fitter_init (Some lt) udp pp kw) item n =
     (Inl (AttributeError no_learner_msg), Fitter_init (Some lt) udp pp kw, n)"
    by (rule getattr_unset [of _ lt]) (simp_all add: Fitter_init_def)
  ultimately show ?thesis by blast
qed

theorem getattr_proxies_active_learner_witness:
  "fits abc_fitter = Some ac_types \<and> problem_type abc_fitter = None \<and>
   getattr abc_fitter ''a'' 0 = (Inl (AttributeError no_learner_msg), abc_fitter, 0) \<and>
   call abc_fitter discrete_data 0 = (Inr (PyObj ''classifier''), classification_used) \<and>
   problem_type (fst classification_used) = Some CLASSIFICATION \<and>
   (\<exists>l. learners (fst classification_used) CLASSIFICATION = Some (Some l) \<and>
        attrs l ''a'' = Some (PyInt 1) \<and> attrs l ''b'' = None) \<and>
   getattr (fst classification_used) ''a'' (snd classification_used) =
     (Inr (PyInt 1), classification_used) \<and>
   getattr (fst classification_used) ''b'' (snd classification_used) =
     (Inl (AttributeError (no_attribute_msg ''b'')), classification_used)"
proof -
  have f: "fits abc_fitter = Some ac_types \<and> problem_type abc_fitter = None"
    by (simp add: abc_fitter_def Fitter_init_def)
  have g: "call abc_fitter discrete_data 0 =
     (Inr (PyObj ''classifier''), fst classification_used, snd classification_used)"
    by (simp add: model_defs example_defs classification_used_def Let_def)
  note t = getattr_proxies_active_learner [of abc_fitter discrete_data 0 "PyObj ''classifier''"
      "fst classification_used" "snd classification_used" ac_types "''a''" False PyNone
      abc_config]
  from t f have u: "getattr abc_fitter ''a'' 0 = (Inl (AttributeError no_learner_msg), abc_fitter, 0)"
    by simp
  have k: "problem_type_of discrete_data = CLASSIFICATION"
    by (simp add: problem_type_of_def discrete_data_def)
  from t g have "\<exists>l. problem_type (fst classification_used) = Some CLASSIFICATION \<and>
       learners (fst classification_used) CLASSIFICATION = Some (Some l) \<and>
       (\<forall>item. getattr (fst classification_used) item (snd classification_used) =
          (py_getattr l item, fst classification_used, snd classification_used))"
    unfolding k by auto
  then obtain l where l: "learners (fst classification_used) CLASSIFICATION = Some (Some l)"
    and p: "problem_type (fst classification_used) = Some CLASSIFICATION"
    and a: "\<forall>item. getattr (fst classification_used) item (snd classification_used) =
       (py_getattr l item, fst classification_used, snd classification_used)"
    by blast
  have e: "learners (fst classification_used) CLASSIFICATION =
     Some (Some \<lparr>oid = 0, cls = ACLearner, attrs = ac_config(''use_default_preprocessors'' \<mapsto> PyBool False)\<rparr>)"
    apply (simp add: model_defs example_defs classification_used_def Let_def)
    apply (rule ext)
    apply (simp add: restrict_map_def ac_config_def)
    done
  with l have la: "attrs l ''a'' = Some (PyInt 1) \<and> attrs l ''b'' = None"
    by (auto simp: ac_config_def)
  with a have "getattr (fst classification_used) ''a'' (snd classification_used) =
     (Inr (PyInt 1), classification_used) \<and>
   getattr (fst classification_used) ''b'' (snd classification_used) =
     (Inl (AttributeError (no_attribute_msg ''b'')), classification_used)"
    by (simp add: py_getattr_def)
  with f u g l la p show ?thesis by auto
qed

subsection \<open>Propagation of the preprocessing settings\<close>

text \<open>
  C7. The constructor stores its \<^verbatim>\<open>preprocessors\<close> argument in the configuration
  under the key \<^verbatim>\<open>preprocessors\<close>. On a dispatcher in any state it can reach
  through its three entry points, every learner that \<^verbatim>\<open>get_learner\<close> returns has
  the attribute \<^verbatim>\<open>use_default_preprocessors\<close> equal to the dispatcher's, which is
  the value the dispatcher was constructed with, whatever the configuration and
  the constructor's variable names are and whatever the learner's constructor
  stored under that name.
\<close>

theorem preprocessors_stored_and_flag_propagated:
  "kwargs (Fitter_init f udp pp kw) ''preprocessors'' = Some pp \<and>
   ((self, n) = run (Fitter_init (Some lt) udp pp kw, n0) rs \<longrightarrow>
    get_learner self pto n = (Inr l, self', n') \<longrightarrow>
      attrs l ''use_default_preprocessors'' = Some (PyBool (use_default_preprocessors self')) \<and>
      use_default_preprocessors self' = udp)"
proof -
  have "kwargs (Fitter_init f udp pp kw) ''preprocessors'' = Some pp"
    by (simp add: Fitter_init_def)
  moreover have "attrs l ''use_default_preprocessors'' =
        Some (PyBool (use_default_preprocessors self')) \<and>
      use_default_preprocessors self' = udp"
    if reach: "(self, n) = run (Fitter_init (Some lt) udp pp kw, n0) rs"
      and g: "get_learner self pto n = (Inr l, self', n')"
  proof -
    have ok: "cache_ok lt self" using reach by (rule cache_ok_reachable)
    have ok': "cache_ok lt self'" using cache_ok_get_learner [OF ok g] .
    from get_learner_success [OF g] obtain pt where "learners self' pt = Some (Some l)" by blast
    with ok' have a: "attrs l ''use_default_preprocessors'' =
        Some (PyBool (use_default_preprocessors self'))"
      by (simp add: cache_ok_def)
    have "use_default_preprocessors self = udp"
      using run_frame [of "(Fitter_init (Some lt) udp pp kw, n0)" rs] reach [symmetric]
      by (simp add: Fitter_init_def)
    with get_learner_frame [OF g] a show ?thesis by simp
  qed
  ultimately show ?thesis by blast
qed

theorem preprocessors_stored_and_flag_propagated_witness:
  "kwargs flag_fitter ''preprocessors'' = Some (PyObj ''scaler'') \<and>
   kwargs flag_fitter ''use_default_preprocessors'' = Some (PyBool True) \<and>
   use_default_preprocessors flag_fitter = False \<and>
   (flag_fitter, 0) = run (Fitter_init (Some flag_types) False (PyObj ''scaler'') flag_config, 0) [] \<and>
   init FlagLearner flag_config = Inr flag_config \<and>
   (\<exists>l. fst (get_learner flag_fitter (Some CLASSIFICATION) 0) = Inr l \<and>
        attrs l ''use_default_preprocessors'' = Some (PyBool False) \<and>
        attrs l ''preprocessors'' = None)"
proof -
  have reach: "(flag_fitter, 0) =
      run (Fitter_init (Some flag_types) False (PyObj ''scaler'') flag_config, 0) []"
    by (simp add: run_Nil flag_fitter_def)
  obtain l where e: "fst (get_learner flag_fitter (Some CLASSIFICATION) 0) = Inr l"
    and p: "attrs l ''preprocessors'' = None"
    by (simp add: model_defs example_defs FlagLearner_def flag_types_def flag_config_def flag_fitter_def Let_def restrict_map_def)
  then obtain s' n' where g: "get_learner flag_fitter (Some CLASSIFICATION) 0 = (Inr l, s', n')"
    by (metis prod.collapse)
  note t = preprocessors_stored_and_flag_propagated
    [of "Some flag_types" False "PyObj ''scaler''" flag_config flag_fitter 0 flag_types 0 "[]"
        "Some CLASSIFICATION" l s' n']
  from t reach g have a: "attrs l ''use_default_preprocessors'' = Some (PyBool False)"
    by simp
  from t have k: "kwargs flag_fitter ''preprocessors'' = Some (PyObj ''scaler'')"
    by (simp add: flag_fitter_def)
  have o: "kwargs flag_fitter ''use_default_preprocessors'' = Some (PyBool True) \<and>
   use_default_preprocessors flag_fitter = False \<and> init FlagLearner flag_config = Inr flag_config"
    by (simp add: model_defs example_defs FlagLearner_def flag_types_def flag_config_def flag_fitter_def)
  from e a p have "\<exists>l. fst (get_learner flag_fitter (Some CLASSIFICATION) 0) = Inr l \<and>
        attrs l ''use_default_preprocessors'' = Some (PyBool False) \<and>
        attrs l ''preprocessors'' = None"
    by (intro exI [of _ l] conjI)
  with k o reach show ?thesis by simp
qed

subsection \<open>How many slots of the cache are populated\<close>

text \<open>
  C8, as stated, fails: after a call on a dataset with a discrete target and a call
  on a dataset with a continuous target, on a dispatcher whose class binds both
  kinds, both slots of the cache hold a learner.
\<close>

theorem both_slots_populated_counterexample:
  "both_kinds_used =
     run (Fitter_init (Some both_types) False PyNone abc_config, 0)
       [Call discrete_data, Call continuous_data] \<and>
   populated (fst both_kinds_used) CLASSIFICATION \<and>
   populated (fst both_kinds_used) REGRESSION \<and>
   CLASSIFICATION \<noteq> REGRESSION \<and>
   problem_type (fst both_kinds_used) = Some REGRESSION"
  by (simp add: model_defs example_defs both_kinds_used_def Let_def)

text \<open>
  C8, amended. For every new dispatcher and every sequence of calls on datasets
  that all have the same kind of target, after every prefix of the sequence at most
  one slot of the cache is populated, the slot of that kind, and it is the slot of
  the recorded problem type.
\<close>

theorem same_kind_calls_populate_one_slot:
  assumes "\<forall>d \<in> set ds. has_discrete_class d = b"
  shows "\<forall>i j. populated (fst (run (Fitter_init f udp pp kw, n) (map Call (take i ds)))) j \<longrightarrow>
           problem_type (fst (run (Fitter_init f udp pp kw, n) (map Call (take i ds)))) = Some j \<and>
           j = (if b then CLASSIFICATION else REGRESSION)"
proof (intro allI)
  fix i j
  let ?k = "if b then CLASSIFICATION else REGRESSION"
  have "\<forall>d \<in> set (take i ds). problem_type_of d = ?k"
    using assms by (auto simp: problem_type_of_def dest: in_set_takeD)
  moreover have e: "\<forall>j. \<not> populated (Fitter_init f udp pp kw) j"
    by (simp add: populated_def Fitter_init_def)
  ultimately show "populated (fst (run (Fitter_init f udp pp kw, n) (map Call (take i ds)))) j \<longrightarrow>
           problem_type (fst (run (Fitter_init f udp pp kw, n) (map Call (take i ds)))) = Some j \<and>
           j = ?k"
    using run_same_kind [of "take i ds" ?k "Fitter_init f udp pp kw" n] by blast
qed

theorem same_kind_calls_populate_one_slot_witness:
  "has_discrete_class discrete_data = True \<and> has_discrete_class other_discrete_data = True \<and>
   populated (fst (run (Fitter_init (Some both_types) False PyNone abc_config, 0)
                     (map Call (take 2 [discrete_data, other_discrete_data])))) CLASSIFICATION \<and>
   \<not> populated (fst (run (Fitter_init (Some both_types) False PyNone abc_config, 0)
                     (map Call (take 2 [discrete_data, other_discrete_data])))) REGRESSION \<and>
   problem_type (fst (run (Fitter_init (Some both_types) False PyNone abc_config, 0)
                     (map Call (take 2 [discrete_data, other_discrete_data])))) =
     Some CLASSIFICATION"
proof -
  have h: "\<forall>d \<in> set [discrete_data, other_discrete_data]. has_discrete_class d = True"
    by (simp add: discrete_data_def other_discrete_data_def)
  have p: "populated (fst (run (Fitter_init (Some both_types) False PyNone abc_config, 0)
                     (map Call (take 2 [discrete_data, other_discrete_data])))) CLASSIFICATION"
    by (simp add: model_defs example_defs other_discrete_data_def Let_def)
  have q: "\<not> populated (fst (run (Fitter_init (Some both_types) False PyNone abc_config, 0)
                     (map Call (take 2 [discrete_data, other_discrete_data])))) REGRESSION"
    by (simp add: model_defs example_defs other_discrete_data_def Let_def)
  from same_kind_calls_populate_one_slot [OF h, of "Some both_types" False PyNone abc_config 0] p
  have "problem_type (fst (run (Fitter_init (Some both_types) False PyNone abc_config, 0)
                     (map Call (take 2 [discrete_data, other_discrete_data])))) =
     Some CLASSIFICATION"
    by blast
  with h p q show ?thesis by simp
qed

subsection \<open>Local variables of the constructor pass the filter\<close>

text \<open>
  C9. The set of names used for filtering is the set of all variable names of the
  constructor's code object but the first. Every configuration key that is such a
  name, at whatever index from 1 on, a parameter or a local variable, is passed to
  the constructor with its stored value. There is a learner class and a
  configuration for which a key is passed that is not among the first
  \<^verbatim>\<open>co_argcount\<close> names, that is, not a declared parameter.
\<close>

theorem local_variable_names_pass_the_filter:
  "get_learner_kwargs c = set (drop 1 (co_varnames c)) \<and>
   (fits self = Some lt \<longrightarrow> fits_getitem lt pt = Inr (Some c) \<longrightarrow>
    1 \<le> i \<longrightarrow> i < length (co_varnames c) \<longrightarrow>
    kwargs self (co_varnames c ! i) = Some v \<longrightarrow>
      (\<exists>kw. get_kwargs self (kwargs self) pt = Inr kw \<and> kw (co_varnames c ! i) = Some v)) \<and>
   (\<exists>self' lt' c' kw name.
      fits self' = Some lt' \<and> fits_getitem lt' CLASSIFICATION = Inr (Some c') \<and>
      get_kwargs self' (kwargs self') CLASSIFICATION = Inr kw \<and>
      name \<notin> set (take (co_argcount c') (co_varnames c')) \<and> kw name \<noteq> None)"
proof -
  have "\<exists>kw. get_kwargs self (kwargs self) pt = Inr kw \<and> kw (co_varnames c ! i) = Some v"
    if f: "fits self = Some lt" and c: "fits_getitem lt pt = Inr (Some c)"
      and i: "1 \<le> i" "i < length (co_varnames c)"
      and v: "kwargs self (co_varnames c ! i) = Some v"
  proof -
    from i have "co_varnames c ! i \<in> set (drop 1 (co_varnames c))"
      by (rule nth_in_drop_1)
    with v have "(kwargs self |` (get_learner_kwargs c \<inter> dom (kwargs self))) (co_varnames c ! i)
       = Some v"
      by (simp add: restrict_map_def get_learner_kwargs_def domI)
    with f c show ?thesis by (simp add: get_kwargs_def)
  qed
  moreover have "\<exists>self' lt' c' kw name.
      fits self' = Some lt' \<and> fits_getitem lt' CLASSIFICATION = Inr (Some c') \<and>
      get_kwargs self' (kwargs self') CLASSIFICATION = Inr kw \<and>
      name \<notin> set (take (co_argcount c') (co_varnames c')) \<and> kw name \<noteq> None"
  proof (intro exI conjI)
    show "fits local_fitter = Some local_types" by (simp add: local_fitter_def Fitter_init_def)
    show "fits_getitem local_types CLASSIFICATION = Inr (Some LocalVarLearner)"
      by (simp add: local_types_def fits_getitem_def CLASSIFICATION_def)
    show "get_kwargs local_fitter (kwargs local_fitter) CLASSIFICATION = Inr tmp_config"
      by (rule local_get_kwargs)
    show "''tmp'' \<notin> set (take (co_argcount LocalVarLearner) (co_varnames LocalVarLearner))"
      by (simp add: LocalVarLearner_def)
    show "tmp_config ''tmp'' \<noteq> None" by (simp add: tmp_config_def)
  qed
  moreover have "get_learner_kwargs c = set (drop 1 (co_varnames c))"
    by (simp add: get_learner_kwargs_def)
  ultimately show ?thesis by blast
qed

theorem local_variable_names_pass_the_filter_witness:
  "fits local_fitter = Some local_types \<and>
   fits_getitem local_types CLASSIFICATION = Inr (Some LocalVarLearner) \<and>
   co_varnames LocalVarLearner ! 2 = ''tmp'' \<and>
   co_argcount LocalVarLearner = 2 \<and>
   length (co_varnames LocalVarLearner) = 3 \<and>
   ''tmp'' \<notin> set (take (co_argcount LocalVarLearner) (co_varnames LocalVarLearner)) \<and>
   kwargs local_fitter ''tmp'' = Some (PyInt 2) \<and>
   get_kwargs local_fitter (kwargs local_fitter) CLASSIFICATION = Inr tmp_config \<and>
   tmp_config ''tmp'' = Some (PyInt 2) \<and>
   new_learner local_fitter CLASSIFICATION 0 = (Inl (Raised (PyObj ''TypeError'')), 1)"
proof -
  have f: "fits local_fitter = Some local_types"
    by (simp add: local_fitter_def Fitter_init_def)
  have g: "fits_getitem local_types CLASSIFICATION = Inr (Some LocalVarLearner)"
    by (simp add: local_types_def fits_getitem_def CLASSIFICATION_def)
  have c1: "co_varnames LocalVarLearner ! 2 = ''tmp''"
    and c2: "co_argcount LocalVarLearner = 2"
    and c3: "length (co_varnames LocalVarLearner) = 3"
    and c4: "''tmp'' \<notin> set (take (co_argcount LocalVarLearner) (co_varnames LocalVarLearner))"
    by (simp_all add: LocalVarLearner_def)
  have k: "kwargs local_fitter ''tmp'' = Some (PyInt 2)"
    by (simp add: local_fitter_def Fitter_init_def tmp_config_def)
  note t = local_variable_names_pass_the_filter
    [of LocalVarLearner local_fitter local_types CLASSIFICATION 2 "PyInt 2"]
  from t f g c1 c3 k obtain kw where
    kw: "get_kwargs local_fitter (kwargs local_fitter) CLASSIFICATION = Inr kw"
    and v: "kw ''tmp'' = Some (PyInt 2)"
    by auto
  from kw local_get_kwargs have "kw = tmp_config" by simp
  with v have v': "tmp_config ''tmp'' = Some (PyInt 2)" by simp
  have i: "init LocalVarLearner tmp_config = Inl (PyObj ''TypeError'')"
    by (simp add: LocalVarLearner_def strict_init_def tmp_config_def)
  have n: "new_learner local_fitter CLASSIFICATION 0 = (Inl (Raised (PyObj ''TypeError'')), 1)"
    using new_learner_bound [OF f g, of 0] i by (simp add: local_restrict)
  show ?thesis
    by (intro conjI) (rule f g c1 c2 c3 c4 k local_get_kwargs v' n)+
qed

subsection \<open>A failed call is not atomic\<close>

text \<open>
  C10. A call on a dataset whose problem type has no bound learner raises the error
  of line 59 after it has recorded that problem type in \<^verbatim>\<open>problem_type\<close>; from
  then on every read through \<^verbatim>\<open>__getattr__\<close> raises the same error and leaves the
  dispatcher as it is, however many reads follow, even when a learner for the
  other problem type is cached.
\<close>

theorem failed_call_leaves_unsupported_kind_active:
  assumes f: "fits self = Some lt" and u: "fits_getitem lt (problem_type_of d) = Inr None"
  shows "\<exists>self'. call self d n = (Inl (AttributeError no_learner_msg), self', n) \<and>
           problem_type self' = Some (problem_type_of d) \<and>
           (\<forall>item. getattr self' item n = (Inl (AttributeError no_learner_msg), self', n)) \<and>
           (\<forall>items. run (self', n) (map GetAttr items) = (self', n))"
proof -
  let ?s = "self\<lparr>problem_type := Some (problem_type_of d)\<rparr>"
  have f': "fits ?s = Some lt" using f by simp
  have p: "problem_type ?s = Some (problem_type_of d)" by simp
  have "call self d n = (Inl (AttributeError no_learner_msg), ?s, n)"
    using call_unbound [OF f u] .
  moreover have "\<forall>item. getattr ?s item n = (Inl (AttributeError no_learner_msg), ?s, n)"
    using getattr_unbound [OF f' p u] by blast
  moreover have "\<forall>items. run (?s, n) (map GetAttr items) = (?s, n)"
    using run_getattr_unbound [OF f' p u] by blast
  ultimately show ?thesis using p by blast
qed

theorem failed_call_leaves_unsupported_kind_active_witness:
  "fits (fst classification_used) = Some ac_types \<and>
   snd classification_used = 1 \<and>
   problem_type (fst classification_used) = Some CLASSIFICATION \<and>
   fst (getattr (fst classification_used) ''a'' 1) = Inr (PyInt 1) \<and>
   fits_getitem ac_types (problem_type_of continuous_data) = Inr None \<and>
   fst (call (fst classification_used) continuous_data 1) =
     Inl (AttributeError no_learner_msg) \<and>
   problem_type (fst (snd (call (fst classification_used) continuous_data 1))) =
     Some REGRESSION \<and>
   populated (fst (snd (call (fst classification_used) continuous_data 1))) CLASSIFICATION \<and>
   getattr (fst (snd (call (fst classification_used) continuous_data 1))) ''a'' 1 =
     (Inl (AttributeError no_learner_msg),
      fst (snd (call (fst classification_used) continuous_data 1)), 1)"
proof -
  have f: "fits (fst classification_used) = Some ac_types"
    by (simp add: model_defs example_defs classification_used_def Let_def)
  have u: "fits_getitem ac_types (problem_type_of continuous_data) = Inr None"
    by (simp add: model_defs example_defs classification_used_def)
  from failed_call_leaves_unsupported_kind_active [OF f u, of 1]
  obtain s' where s': "call (fst classification_used) continuous_data 1 =
       (Inl (AttributeError no_learner_msg), s', 1)"
    and g: "getattr s' ''a'' 1 = (Inl (AttributeError no_learner_msg), s', 1)"
    by blast
  from s' g have "getattr (fst (snd (call (fst classification_used) continuous_data 1))) ''a'' 1 =
     (Inl (AttributeError no_learner_msg),
      fst (snd (call (fst classification_used) continuous_data 1)), 1)"
    by simp
  moreover have "snd classification_used = 1 \<and>
   problem_type (fst classification_used) = Some CLASSIFICATION \<and>
   fst (getattr (fst classification_used) ''a'' 1) = Inr (PyInt 1)"
    by (simp add: model_defs example_defs classification_used_def Let_def restrict_map_def)
  moreover have "fst (call (fst classification_used) continuous_data 1) =
     Inl (AttributeError no_learner_msg) \<and>
   problem_type (fst (snd (call (fst classification_used) continuous_data 1))) =
     Some REGRESSION \<and>
   populated (fst (snd (call (fst classification_used) continuous_data 1))) CLASSIFICATION"
    by (simp add: model_defs example_defs classification_used_def Let_def)
  ultimately show ?thesis using f u by simp
qed

end
